theory Spec2Isabelle
  imports Main "HOL-Library.Word" "HOL-Library.Signed_Division"
begin

unbundle bit_operations_syntax

section \<open>Machine types of btree.h\<close>

type_synonym uint8_t = "8 word"
type_synonym uint16_t = "16 word"
type_synonym uint32_t = "32 word"
type_synonym uint64_t = "64 word"

text \<open>
  \<open>off_t\<close> is the signed 64-bit file offset of the OS layer (btree.h, lines 45-49).
  A value is stored as a 64-bit word and read as two's complement with \<open>sint\<close>.
\<close>

type_synonym off_t = "64 word"

definition UINT32_MAX :: uint32_t where
  "UINT32_MAX = 0xffffffff"

definition UINT64_MAX :: uint64_t where
  "UINT64_MAX = 0xffffffffffffffff"

definition INT64_MAX :: int where
  "INT64_MAX = 2 ^ 63 - 1"

definition WT_MEGABYTE :: uint32_t where
  "WT_MEGABYTE = 1048576"

section \<open>Address/offset conversion (btree.h, lines 41-68)\<close>

definition WT_BTREE_ALLOCATION_SIZE :: uint32_t where
  "WT_BTREE_ALLOCATION_SIZE = 512"

definition WT_BTREE_ALLOCATION_SIZE_MAX :: uint32_t where
  "WT_BTREE_ALLOCATION_SIZE_MAX = 128 * WT_MEGABYTE"

definition WT_BTREE_PAGE_SIZE_MAX :: uint32_t where
  "WT_BTREE_PAGE_SIZE_MAX = 256 * WT_MEGABYTE"

definition WT_ADDR_DELETED :: uint32_t where
  "WT_ADDR_DELETED = UINT32_MAX - 1"

definition WT_ADDR_INVALID :: uint32_t where
  "WT_ADDR_INVALID = UINT32_MAX"

text \<open>
  The macros read \<open>(db)->allocsize\<close>. The structure behind \<open>db\<close> is declared outside
  btree.h; the only field the macros use is the allocation unit, an unsigned 32-bit count
  of bytes.
\<close>

record DB =
  allocsize :: uint32_t

text \<open>
  \<open>WT_ADDR_TO_OFF(db, addr) = ((off_t)(addr) * (db)->allocsize)\<close>.
  The address is converted to \<open>off_t\<close>, the allocation unit is promoted to the same signed
  64-bit type, and the product is a signed 64-bit multiplication. Signed overflow is
  undefined in C: the model returns \<open>None\<close> there.
\<close>

definition WT_ADDR_TO_OFF :: "DB \<Rightarrow> uint32_t \<Rightarrow> off_t option" where
  "WT_ADDR_TO_OFF db addr =
     (let r = uint addr * uint (allocsize db)
      in if r \<le> INT64_MAX then Some (word_of_int r) else None)"

text \<open>
  \<open>WT_OFF_TO_ADDR(db, off) = ((uint32_t)((off) / (db)->allocsize))\<close>.
  The division is C's signed 64-bit division, which truncates towards zero (\<open>sdiv\<close> on
  \<open>int\<close>); the cast keeps the low 32 bits of the quotient (\<open>word_of_int\<close> into a 32-bit
  word). Division by zero is undefined in C: the model returns \<open>None\<close> there. The divisor
  is never negative, so the quotient always fits the signed 64-bit type.
\<close>

definition WT_OFF_TO_ADDR :: "DB \<Rightarrow> off_t \<Rightarrow> uint32_t option" where
  "WT_OFF_TO_ADDR db off =
     (if allocsize db = 0 then None
      else Some (word_of_int (sint off sdiv uint (allocsize db))))"

section \<open>Items (btree.h, lines 673-804)\<close>

definition WT_ITEM_MAX_LEN :: uint32_t where
  "WT_ITEM_MAX_LEN = 16 * 1024 * 1024 - 1"

definition WT_ITEM_SIZE :: nat where
  "WT_ITEM_SIZE = 4"

definition WT_ITEM_KEY :: uint32_t where
  "WT_ITEM_KEY = 0x00000000"

definition WT_ITEM_KEY_OVFL :: uint32_t where
  "WT_ITEM_KEY_OVFL = 0x01000000"

definition WT_ITEM_KEY_DUP :: uint32_t where
  "WT_ITEM_KEY_DUP = 0x02000000"

definition WT_ITEM_KEY_DUP_OVFL :: uint32_t where
  "WT_ITEM_KEY_DUP_OVFL = 0x03000000"

definition WT_ITEM_DATA :: uint32_t where
  "WT_ITEM_DATA = 0x04000000"

definition WT_ITEM_DATA_OVFL :: uint32_t where
  "WT_ITEM_DATA_OVFL = 0x05000000"

definition WT_ITEM_DATA_DUP :: uint32_t where
  "WT_ITEM_DATA_DUP = 0x06000000"

definition WT_ITEM_DATA_DUP_OVFL :: uint32_t where
  "WT_ITEM_DATA_DUP_OVFL = 0x07000000"

definition WT_ITEM_DEL :: uint32_t where
  "WT_ITEM_DEL = 0x08000000"

definition WT_ITEM_OFF :: uint32_t where
  "WT_ITEM_OFF = 0x09000000"

definition WT_ITEM_OFF_RECORD :: uint32_t where
  "WT_ITEM_OFF_RECORD = 0x0a000000"

text \<open>The eleven item types, in the order of their declaration.\<close>

definition wt_item_types :: "uint32_t list" where
  "wt_item_types =
     [WT_ITEM_KEY, WT_ITEM_KEY_OVFL, WT_ITEM_KEY_DUP, WT_ITEM_KEY_DUP_OVFL,
      WT_ITEM_DATA, WT_ITEM_DATA_OVFL, WT_ITEM_DATA_DUP, WT_ITEM_DATA_DUP_OVFL,
      WT_ITEM_DEL, WT_ITEM_OFF, WT_ITEM_OFF_RECORD]"

text \<open>
  The macros take the address of a \<open>WT_ITEM\<close> and read or assign its only member
  \<open>__item_chunk\<close>. The model passes the value of that member: the readers take the chunk,
  the writers return the chunk that the assignment stores.
\<close>

definition WT_ITEM_TYPE :: "uint32_t \<Rightarrow> uint32_t" where
  "WT_ITEM_TYPE chunk = chunk AND 0x0f000000"

definition WT_ITEM_LEN :: "uint32_t \<Rightarrow> uint32_t" where
  "WT_ITEM_LEN chunk = chunk AND 0x00ffffff"

definition WT_ITEM_SET :: "uint32_t \<Rightarrow> uint32_t \<Rightarrow> uint32_t" where
  "WT_ITEM_SET type sz = type OR sz"

definition WT_ITEM_SET_LEN :: "uint32_t \<Rightarrow> uint32_t \<Rightarrow> uint32_t" where
  "WT_ITEM_SET_LEN chunk sz = WT_ITEM_SET (WT_ITEM_TYPE chunk) sz"

definition WT_ITEM_SET_TYPE :: "uint32_t \<Rightarrow> uint32_t \<Rightarrow> uint32_t" where
  "WT_ITEM_SET_TYPE chunk type = WT_ITEM_SET type (WT_ITEM_LEN chunk)"

section \<open>Page references (btree.h, lines 332-374)\<close>

text \<open>
  A pointer is the address it holds; \<open>NULL\<close> is \<open>None\<close>.
\<close>

type_synonym ptr = nat

definition WT_REF_CACHE :: uint32_t where
  "WT_REF_CACHE = 1"

definition WT_REF_DISK :: uint32_t where
  "WT_REF_DISK = 0"

definition WT_REF_EVICT :: uint32_t where
  "WT_REF_EVICT = 2"

text \<open>
  \<open>struct __wt_ref\<close>. The members \<open>page\<close> and \<open>state\<close> are named \<open>ref_page\<close> and
  \<open>ref_state\<close>.
\<close>

record WT_REF =
  ref_page :: "ptr option"
  ref_state :: uint32_t

section \<open>In-memory pages (btree.h, lines 119-330)\<close>

text \<open>
  The union \<open>u3\<close> holds one pointer, read either as \<open>WT_REF *ref\<close> (an array of
  structures, on internal pages) or as \<open>WT_REF **dup\<close> (an array of pointers, on row-store
  leaf pages). The model records which array the pointer leads to.
\<close>

datatype wt_u3 = U3_NULL | U3_REF "WT_REF list" | U3_DUP "ptr option list"

text \<open>
  \<open>struct __wt_page\<close>. The members \<open>addr\<close>, \<open>size\<close> and \<open>records\<close> are named
  \<open>page_addr\<close>, \<open>page_size\<close> and \<open>page_records\<close>. The union \<open>u\<close> holds the pointer to
  the first index entry (\<open>icol\<close>, \<open>irow\<close> and \<open>indx\<close> are the same pointer under three
  types); a pointer into the index array is counted in entries, as C's pointer
  arithmetic counts it. The union \<open>u2\<close> holds
  one pointer to an array of pointers, or \<open>NULL\<close> (\<open>repl\<close> and \<open>rleexp\<close> are the same
  pointer under two types).
\<close>

record WT_PAGE =
  page_addr :: uint32_t
  page_size :: uint32_t
  page_records :: uint64_t
  parent :: "ptr option"
  parent_off :: "ptr option"
  dsk :: "ptr option"
  read_gen :: uint64_t
  disk_gen :: uint32_t
  write_gen :: uint32_t
  indx_count :: uint32_t
  u_indx :: int
  u2 :: "ptr option list option"
  u3 :: wt_u3

definition WT_PAGE_SET_PIN :: "WT_PAGE \<Rightarrow> WT_PAGE" where
  "WT_PAGE_SET_PIN p = p\<lparr>read_gen := UINT64_MAX\<rparr>"

definition WT_PAGE_IS_PINNED :: "WT_PAGE \<Rightarrow> bool" where
  "WT_PAGE_IS_PINNED p = (read_gen p = UINT64_MAX)"

definition WT_PAGE_DISK_WRITE :: "WT_PAGE \<Rightarrow> WT_PAGE" where
  "WT_PAGE_DISK_WRITE p = p\<lparr>disk_gen := write_gen p\<rparr>"

definition WT_PAGE_IS_MODIFIED :: "WT_PAGE \<Rightarrow> bool" where
  "WT_PAGE_IS_MODIFIED p = (disk_gen p \<noteq> write_gen p)"

text \<open>\<open>++(p)->write_gen\<close>: the unsigned 32-bit increment, which wraps from \<open>UINT32_MAX\<close> to 0.\<close>

definition WT_PAGE_SET_MODIFIED :: "WT_PAGE \<Rightarrow> WT_PAGE" where
  "WT_PAGE_SET_MODIFIED p = p\<lparr>write_gen := write_gen p + 1\<rparr>"

definition WT_PAGE_DUP_TREES :: "WT_PAGE \<Rightarrow> bool" where
  "WT_PAGE_DUP_TREES p = (u3 p \<noteq> U3_NULL)"

subsection \<open>Slots of the arrays parallel to the index\<close>

text \<open>
  \<open>WT_COL_SLOT(page, ip) = (uint32_t)((WT_COL *)(ip) - (page)->u.icol)\<close>, and the same
  for rows with \<open>u.irow\<close>: the difference of two pointers to index entries, in entries,
  cast to 32 bits.
\<close>

definition WT_COL_SLOT :: "WT_PAGE \<Rightarrow> int \<Rightarrow> uint32_t" where
  "WT_COL_SLOT page ip = word_of_int (ip - u_indx page)"

definition WT_ROW_SLOT :: "WT_PAGE \<Rightarrow> int \<Rightarrow> uint32_t" where
  "WT_ROW_SLOT page ip = word_of_int (ip - u_indx page)"

text \<open>
  What a union member of pointer-to-pointer type reads: \<open>NULL\<close>, an array of pointers, or
  a pointer that is not \<open>NULL\<close> but leads to something else (the \<open>WT_REF\<close> structures of an
  internal page).
\<close>

datatype ptr_array = Null_Array | Ptr_Array "ptr option list" | Other_Memory

definition u2_repl :: "WT_PAGE \<Rightarrow> ptr_array" where
  "u2_repl p = (case u2 p of None \<Rightarrow> Null_Array | Some xs \<Rightarrow> Ptr_Array xs)"

definition u2_rleexp :: "WT_PAGE \<Rightarrow> ptr_array" where
  "u2_rleexp p = (case u2 p of None \<Rightarrow> Null_Array | Some xs \<Rightarrow> Ptr_Array xs)"

definition u3_dup :: "WT_PAGE \<Rightarrow> ptr_array" where
  "u3_dup p =
     (case u3 p of U3_NULL \<Rightarrow> Null_Array | U3_DUP xs \<Rightarrow> Ptr_Array xs
      | U3_REF rs \<Rightarrow> Other_Memory)"

text \<open>
  Reading \<open>field[slot]\<close>. C has no bounds check: a slot beyond the array, and a read
  through a pointer that leads to something else, are undefined and are faults of the
  model.
\<close>

datatype fault = Out_Of_Bounds | Wrong_Union_Member

definition array_read :: "ptr_array \<Rightarrow> uint32_t \<Rightarrow> fault + ptr option" where
  "array_read a slot =
     (case a of
        Null_Array \<Rightarrow> Inl Out_Of_Bounds
      | Other_Memory \<Rightarrow> Inl Wrong_Union_Member
      | Ptr_Array xs \<Rightarrow> if unat slot < length xs then Inr (xs ! unat slot) else Inl Out_Of_Bounds)"

text \<open>
  \<open>__WT_COL_ARRAY(page, ip, field) =
     ((page)->field == NULL ? NULL : (page)->field[WT_COL_SLOT(page, ip)])\<close>
  and \<open>__WT_ROW_ARRAY\<close>, the same with \<open>WT_ROW_SLOT\<close>. (An Isabelle name cannot start
  with an underscore.)
\<close>

definition WT_COL_ARRAY :: "WT_PAGE \<Rightarrow> int \<Rightarrow> (WT_PAGE \<Rightarrow> ptr_array) \<Rightarrow> fault + ptr option" where
  "WT_COL_ARRAY page ip field =
     (if field page = Null_Array then Inr None
      else array_read (field page) (WT_COL_SLOT page ip))"

definition WT_COL_REPL :: "WT_PAGE \<Rightarrow> int \<Rightarrow> fault + ptr option" where
  "WT_COL_REPL page ip = WT_COL_ARRAY page ip u2_repl"

definition WT_COL_RLEEXP :: "WT_PAGE \<Rightarrow> int \<Rightarrow> fault + ptr option" where
  "WT_COL_RLEEXP page ip = WT_COL_ARRAY page ip u2_rleexp"

definition WT_ROW_ARRAY :: "WT_PAGE \<Rightarrow> int \<Rightarrow> (WT_PAGE \<Rightarrow> ptr_array) \<Rightarrow> fault + ptr option" where
  "WT_ROW_ARRAY page ip field =
     (if field page = Null_Array then Inr None
      else array_read (field page) (WT_ROW_SLOT page ip))"

definition WT_ROW_REPL :: "WT_PAGE \<Rightarrow> int \<Rightarrow> fault + ptr option" where
  "WT_ROW_REPL page ip = WT_ROW_ARRAY page ip u2_repl"

definition WT_ROW_DUP :: "WT_PAGE \<Rightarrow> int \<Rightarrow> fault + ptr option" where
  "WT_ROW_DUP page ip = WT_ROW_ARRAY page ip u3_dup"

section \<open>The modification applier\<close>

text \<open>
  Modelled from the spec: the applier of scheduled modifications (the workQ thread of the
  comment at btree.h, lines 165-181) is not among the sources; btree.h has the counter
  \<open>write_gen\<close> and the increment \<open>WT_PAGE_SET_MODIFIED\<close> only. Following the spec
  (Generation Protocol): the applier compares the write generation recorded at search time
  with the page's current one; if they are equal the change is applied and the generation
  bumped, otherwise the operation fails with the restart-required condition. The change
  itself goes to the modification overlay \<open>u2\<close>, and the bump comes after it.
\<close>

datatype apply_status = APPLIED | RESTART_REQUIRED

definition apply_modification ::
  "uint32_t \<Rightarrow> (ptr option list option \<Rightarrow> ptr option list option) \<Rightarrow> WT_PAGE
     \<Rightarrow> apply_status \<times> WT_PAGE" where
  "apply_modification search_gen change p =
     (if search_gen = write_gen p
      then (APPLIED, WT_PAGE_SET_MODIFIED (p\<lparr>u2 := change (u2 p)\<rparr>))
      else (RESTART_REQUIRED, p))"

section \<open>The file descriptor (btree.h, lines 70-117)\<close>

definition WT_BTREE_MAGIC :: uint32_t where
  "WT_BTREE_MAGIC = 120897"

definition WT_BTREE_MAJOR_VERSION :: uint16_t where
  "WT_BTREE_MAJOR_VERSION = 0"

definition WT_BTREE_MINOR_VERSION :: uint16_t where
  "WT_BTREE_MINOR_VERSION = 1"

definition WT_BTREE_INTLMAX_DEFAULT :: uint32_t where
  "WT_BTREE_INTLMAX_DEFAULT = 2 * 1024"

definition WT_BTREE_INTLMIN_DEFAULT :: uint32_t where
  "WT_BTREE_INTLMIN_DEFAULT = 2 * 1024"

definition WT_BTREE_LEAFMAX_DEFAULT :: uint32_t where
  "WT_BTREE_LEAFMAX_DEFAULT = WT_MEGABYTE"

definition WT_BTREE_LEAFMIN_DEFAULT :: uint32_t where
  "WT_BTREE_LEAFMIN_DEFAULT = 32 * 1024"

definition WT_PAGE_DESC_RLE :: uint32_t where
  "WT_PAGE_DESC_RLE = 0x01"

definition WT_PAGE_DESC_SIZE :: nat where
  "WT_PAGE_DESC_SIZE = 512"

text \<open>
  \<open>struct __wt_page_desc\<close>, the named members. The members \<open>unused1[3]\<close> and
  \<open>unused2[112]\<close> carry no value; they take part in the layout below.
\<close>

record WT_PAGE_DESC =
  magic :: uint32_t
  majorv :: uint16_t
  minorv :: uint16_t
  intlmax :: uint32_t
  intlmin :: uint32_t
  leafmax :: uint32_t
  leafmin :: uint32_t
  recno_offset :: uint64_t
  root_addr :: uint32_t
  root_size :: uint32_t
  records :: uint64_t
  free_addr :: uint32_t
  free_size :: uint32_t
  flags :: uint32_t
  fixed_len :: uint8_t

subsection \<open>The layout of the structure\<close>

text \<open>
  The declaration of the structure as the compiler sees it: each member with its type and
  its array length (1 for a scalar), in the order of the declaration. The compiler places
  a member at the next multiple of its alignment, the alignment of an unsigned integer
  type being its size, and rounds the size of the structure up to the largest alignment
  of its members.
\<close>

datatype c_type = C_uint8 | C_uint16 | C_uint32 | C_uint64

fun c_sizeof :: "c_type \<Rightarrow> nat" where
  "c_sizeof C_uint8 = 1"
| "c_sizeof C_uint16 = 2"
| "c_sizeof C_uint32 = 4"
| "c_sizeof C_uint64 = 8"

type_synonym c_member = "string \<times> c_type \<times> nat"

definition wt_page_desc_members :: "c_member list" where
  "wt_page_desc_members =
     [(''magic'', C_uint32, 1), (''majorv'', C_uint16, 1), (''minorv'', C_uint16, 1),
      (''intlmax'', C_uint32, 1), (''intlmin'', C_uint32, 1),
      (''leafmax'', C_uint32, 1), (''leafmin'', C_uint32, 1),
      (''recno_offset'', C_uint64, 1), (''root_addr'', C_uint32, 1),
      (''root_size'', C_uint32, 1), (''records'', C_uint64, 1),
      (''free_addr'', C_uint32, 1), (''free_size'', C_uint32, 1),
      (''flags'', C_uint32, 1), (''fixed_len'', C_uint8, 1),
      (''unused1'', C_uint8, 3), (''unused2'', C_uint32, 112)]"

definition align_up :: "nat \<Rightarrow> nat \<Rightarrow> nat" where
  "align_up n a = ((n + a - 1) div a) * a"

fun member_offsets :: "nat \<Rightarrow> c_member list \<Rightarrow> (string \<times> nat) list" where
  "member_offsets pos [] = []"
| "member_offsets pos ((name, ty, count) # ms) =
     (let off = align_up pos (c_sizeof ty)
      in (name, off) # member_offsets (off + c_sizeof ty * count) ms)"

fun members_end :: "nat \<Rightarrow> c_member list \<Rightarrow> nat" where
  "members_end pos [] = pos"
| "members_end pos ((name, ty, count) # ms) =
     members_end (align_up pos (c_sizeof ty) + c_sizeof ty * count) ms"

definition struct_align :: "c_member list \<Rightarrow> nat" where
  "struct_align ms = fold max (map (\<lambda>(name, ty, count). c_sizeof ty) ms) 1"

definition struct_sizeof :: "c_member list \<Rightarrow> nat" where
  "struct_sizeof ms = align_up (members_end 0 ms) (struct_align ms)"

subsection \<open>The bytes of the descriptor\<close>

text \<open>
  An unsigned integer of \<open>n\<close> bytes in memory, in the byte order of the machine that
  writes the file.
\<close>

datatype byte_order = Little_Endian | Big_Endian

fun le_bytes :: "nat \<Rightarrow> 'a::len word \<Rightarrow> uint8_t list" where
  "le_bytes 0 w = []"
| "le_bytes (Suc n) w = ucast w # le_bytes n (drop_bit 8 w)"

fun from_le :: "uint8_t list \<Rightarrow> 'a::len word" where
  "from_le [] = 0"
| "from_le (b # bs) = ucast b OR push_bit 8 (from_le bs)"

definition word_bytes :: "byte_order \<Rightarrow> nat \<Rightarrow> 'a::len word \<Rightarrow> uint8_t list" where
  "word_bytes bo n w =
     (case bo of Little_Endian \<Rightarrow> le_bytes n w | Big_Endian \<Rightarrow> rev (le_bytes n w))"

definition bytes_word :: "byte_order \<Rightarrow> uint8_t list \<Rightarrow> 'a::len word" where
  "bytes_word bo bs =
     (case bo of Little_Endian \<Rightarrow> from_le bs | Big_Endian \<Rightarrow> from_le (rev bs))"

definition slice :: "nat \<Rightarrow> nat \<Rightarrow> 'a list \<Rightarrow> 'a list" where
  "slice off n bs = take n (drop off bs)"

datatype format_error = Format_Error

text \<open>
  Modelled from the spec: the functions that write and read the descriptor are not among
  the sources; btree.h declares the structure and its expected size only. Following the
  spec (Page Header Codecs, External Interfaces, Design Notes): explicit pure encode and
  decode functions on byte buffers. The encoder writes the 512 bytes of the structure,
  every named member in declaration order and the unused members as zero bytes. The
  decoder reads every member at its byte offset (the offsets of the comments in the
  declaration, \<open>00-03\<close> to \<open>60\<close>) and rejects with a format error a buffer that is not
  512 bytes long and a descriptor whose magic number or major version is not the
  engine's.
\<close>

definition desc_encode :: "byte_order \<Rightarrow> WT_PAGE_DESC \<Rightarrow> uint8_t list" where
  "desc_encode bo d =
     word_bytes bo 4 (magic d) @ word_bytes bo 2 (majorv d) @ word_bytes bo 2 (minorv d)
     @ word_bytes bo 4 (intlmax d) @ word_bytes bo 4 (intlmin d)
     @ word_bytes bo 4 (leafmax d) @ word_bytes bo 4 (leafmin d)
     @ word_bytes bo 8 (recno_offset d)
     @ word_bytes bo 4 (root_addr d) @ word_bytes bo 4 (root_size d)
     @ word_bytes bo 8 (records d)
     @ word_bytes bo 4 (free_addr d) @ word_bytes bo 4 (free_size d)
     @ word_bytes bo 4 (flags d)
     @ word_bytes bo 1 (fixed_len d) @ replicate 3 0
     @ replicate (4 * 112) 0"

text \<open>
  Modelled from the spec: the decoder of the descriptor (see the encoder above).
\<close>

definition desc_decode :: "byte_order \<Rightarrow> uint8_t list \<Rightarrow> format_error + WT_PAGE_DESC" where
  "desc_decode bo bs =
     (if length bs \<noteq> WT_PAGE_DESC_SIZE then Inl Format_Error
      else
        let d = \<lparr>magic = bytes_word bo (slice 0 4 bs),
                 majorv = bytes_word bo (slice 4 2 bs),
                 minorv = bytes_word bo (slice 6 2 bs),
                 intlmax = bytes_word bo (slice 8 4 bs),
                 intlmin = bytes_word bo (slice 12 4 bs),
                 leafmax = bytes_word bo (slice 16 4 bs),
                 leafmin = bytes_word bo (slice 20 4 bs),
                 recno_offset = bytes_word bo (slice 24 8 bs),
                 root_addr = bytes_word bo (slice 32 4 bs),
                 root_size = bytes_word bo (slice 36 4 bs),
                 records = bytes_word bo (slice 40 8 bs),
                 free_addr = bytes_word bo (slice 48 4 bs),
                 free_size = bytes_word bo (slice 52 4 bs),
                 flags = bytes_word bo (slice 56 4 bs),
                 fixed_len = bytes_word bo (slice 60 1 bs)\<rparr>
        in if magic d \<noteq> WT_BTREE_MAGIC \<or> majorv d \<noteq> WT_BTREE_MAJOR_VERSION
           then Inl Format_Error else Inr d)"

text \<open>
  The descriptor of a file with the default page sizes: leaf pages from 32KB to 1MB,
  internal pages of 2KB, run-length encoding on.
\<close>

definition example_desc :: WT_PAGE_DESC where
  "example_desc =
     \<lparr>magic = 120897, majorv = 0, minorv = 1, intlmax = 2048, intlmin = 2048,
      leafmax = 1048576, leafmin = 32768, recno_offset = 0, root_addr = 1, root_size = 2048,
      records = 1000000, free_addr = 0xffffffff, free_size = 0, flags = 1, fixed_len = 0\<rparr>"

section \<open>The lifecycle of a page reference\<close>

text \<open>
  Modelled from the spec: the reader's hazard-reference protocol, the page loader and the
  eviction server are not among the sources; btree.h has \<open>struct __wt_ref\<close>, the three
  state values and the comment that describes the protocol (lines 332-360). Following
  the spec (Page Reference and Lifecycle State Machine) and that comment, the model is
  one page reference shared by a number of reader threads, the loader and the evictor.
  Every read or write of shared memory is one atomic step, the steps of the threads
  interleave in any order, and a thread's steps take effect in program order (which is
  what the memory barriers of the protocol are for).

  A reader has one hazard slot. It reads the state (\<open>R_Idle\<close>); if that is in-cache
  (\<open>R_Saw_Cache\<close>) it records the page in its hazard slot (\<open>R_Hazard_Set\<close>) and reads the
  state again: if it is still in-cache the reference is valid while the hazard reference
  is held (\<open>R_Holding\<close>), otherwise the reader clears the slot and starts over. The
  evictor is idle or has marked the reference evict-pending and scanned the hazard slots
  below an index.
\<close>

datatype reader_pc = R_Idle | R_Saw_Cache | R_Hazard_Set | R_Holding

datatype evictor_pc = E_Idle | E_Scanning nat

text \<open>
  Modelled from the spec: the shared state. \<open>ref\<close> is the page reference, \<open>hazard\<close> the
  hazard slot of each reader, \<open>readers\<close> the number of readers. \<open>targeted\<close> is a history
  variable that no step reads: the reference as it was when the evictor last chose it.
\<close>

record lifecycle =
  ref :: WT_REF
  hazard :: "nat \<Rightarrow> ptr option"
  rpc :: "nat \<Rightarrow> reader_pc"
  epc :: evictor_pc
  targeted :: "WT_REF option"
  readers :: nat

datatype event =
  Reader_Read_State nat
  | Reader_Set_Hazard nat
  | Reader_Recheck nat
  | Reader_Release nat
  | Loader_Install ptr
  | Loader_Publish
  | Evictor_Mark
  | Evictor_Scan
  | Evictor_Reclaim

text \<open>
  Modelled from the spec: one step of one thread; \<open>None\<close> when the thread is not at that
  step. The loader installs the page and then publishes the state (on-disk to in-cache).
  The evictor marks an in-cache reference evict-pending; it then reads one hazard slot
  per step, and on a slot that holds the page it aborts and restores in-cache; after the
  last slot it reclaims the page and resets the reference to the zero state (on-disk).
\<close>

fun step :: "event \<Rightarrow> lifecycle \<Rightarrow> lifecycle option" where
  "step (Reader_Read_State r) s =
     (if r < readers s \<and> rpc s r = R_Idle
      then Some (if ref_state (ref s) = WT_REF_CACHE
                 then s\<lparr>rpc := (rpc s)(r := R_Saw_Cache)\<rparr> else s)
      else None)"
| "step (Reader_Set_Hazard r) s =
     (if r < readers s \<and> rpc s r = R_Saw_Cache
      then Some (s\<lparr>hazard := (hazard s)(r := ref_page (ref s)),
                   rpc := (rpc s)(r := R_Hazard_Set)\<rparr>)
      else None)"
| "step (Reader_Recheck r) s =
     (if r < readers s \<and> rpc s r = R_Hazard_Set
      then Some (if ref_state (ref s) = WT_REF_CACHE
                 then s\<lparr>rpc := (rpc s)(r := R_Holding)\<rparr>
                 else s\<lparr>hazard := (hazard s)(r := None), rpc := (rpc s)(r := R_Idle)\<rparr>)
      else None)"
| "step (Reader_Release r) s =
     (if r < readers s \<and> rpc s r = R_Holding
      then Some (s\<lparr>hazard := (hazard s)(r := None), rpc := (rpc s)(r := R_Idle)\<rparr>)
      else None)"
| "step (Loader_Install p) s =
     (if ref_state (ref s) = WT_REF_DISK \<and> ref_page (ref s) = None
      then Some (s\<lparr>ref := (ref s)\<lparr>ref_page := Some p\<rparr>\<rparr>)
      else None)"
| "step Loader_Publish s =
     (if ref_state (ref s) = WT_REF_DISK \<and> ref_page (ref s) \<noteq> None
      then Some (s\<lparr>ref := (ref s)\<lparr>ref_state := WT_REF_CACHE\<rparr>\<rparr>)
      else None)"
| "step Evictor_Mark s =
     (if epc s = E_Idle \<and> ref_state (ref s) = WT_REF_CACHE
      then Some (s\<lparr>targeted := Some (ref s),
                   ref := (ref s)\<lparr>ref_state := WT_REF_EVICT\<rparr>,
                   epc := E_Scanning 0\<rparr>)
      else None)"
| "step Evictor_Scan s =
     (case epc s of
        E_Idle \<Rightarrow> None
      | E_Scanning i \<Rightarrow>
          if i < readers s
          then Some (if hazard s i = ref_page (ref s)
                     then s\<lparr>ref := (ref s)\<lparr>ref_state := WT_REF_CACHE\<rparr>, epc := E_Idle\<rparr>
                     else s\<lparr>epc := E_Scanning (Suc i)\<rparr>)
          else None)"
| "step Evictor_Reclaim s =
     (case epc s of
        E_Idle \<Rightarrow> None
      | E_Scanning i \<Rightarrow>
          if i = readers s
          then Some (s\<lparr>ref := \<lparr>ref_page = None, ref_state = WT_REF_DISK\<rparr>, epc := E_Idle\<rparr>)
          else None)"

text \<open>An interleaving is a list of events; it stops at the first step that cannot be taken.\<close>

fun run :: "event list \<Rightarrow> lifecycle \<Rightarrow> lifecycle option" where
  "run [] s = Some s"
| "run (e # es) s = (case step e s of None \<Rightarrow> None | Some s' \<Rightarrow> run es s')"

text \<open>
  Modelled from the spec: the initial state. The reference is zero-initialised, which is
  the on-disk state; no reader holds anything and the evictor is idle.
\<close>

definition init :: "nat \<Rightarrow> lifecycle" where
  "init n =
     \<lparr>ref = \<lparr>ref_page = None, ref_state = WT_REF_DISK\<rparr>, hazard = (\<lambda>r. None),
      rpc = (\<lambda>r. R_Idle), epc = E_Idle, targeted = None, readers = n\<rparr>"

text \<open>
  Reader \<open>r\<close> holds a live hazard reference against the page \<open>p\<close>: its slot holds \<open>p\<close>,
  it has confirmed the in-cache state after setting the slot, and it has not released the
  slot.
\<close>

definition holds_live :: "lifecycle \<Rightarrow> nat \<Rightarrow> ptr \<Rightarrow> bool" where
  "holds_live s r p = (r < readers s \<and> rpc s r = R_Holding \<and> hazard s r = Some p)"

text \<open>
  What holds while the evictor scans: the reference is evict-pending and otherwise as it
  was when chosen, and no reader whose slot was already scanned holds a live hazard
  reference against the page.
\<close>

definition scan_inv :: "lifecycle \<Rightarrow> bool" where
  "scan_inv s =
     (case epc s of
        E_Idle \<Rightarrow> True
      | E_Scanning i \<Rightarrow>
          i \<le> readers s \<and> ref_state (ref s) = WT_REF_EVICT
          \<and> targeted s = Some ((ref s)\<lparr>ref_state := WT_REF_CACHE\<rparr>)
          \<and> (\<forall>r<i. rpc s r = R_Holding \<longrightarrow> hazard s r \<noteq> ref_page (ref s)))"

subsection \<open>An eviction attempt against a held page\<close>

text \<open>
  Two readers. The loader brings the page at address 4096 into the cache and reader 0
  takes a hazard reference (\<open>held_state\<close>); the evictor marks the reference
  (\<open>marked_state\<close>), reader 1 looks at it and finds it evict-pending (\<open>scanning_state\<close>),
  and the evictor scans the slot of reader 0 (\<open>aborted_state\<close>).
\<close>

definition held_trace :: "event list" where
  "held_trace =
     [Loader_Install 4096, Loader_Publish,
      Reader_Read_State 0, Reader_Set_Hazard 0, Reader_Recheck 0]"

definition held_state :: lifecycle where
  "held_state = the (run held_trace (init 2))"

definition marked_state :: lifecycle where
  "marked_state = the (step Evictor_Mark held_state)"

definition scanning_state :: lifecycle where
  "scanning_state = the (run [Reader_Read_State 1] marked_state)"

definition aborted_state :: lifecycle where
  "aborted_state = the (step Evictor_Scan scanning_state)"

section \<open>A page for the concrete checks\<close>

text \<open>
  A row-store leaf page of three entries that was never modified: no overlay array, no
  off-page duplicate trees, and write generation 7 with disk generation 5.
\<close>

definition example_page :: WT_PAGE where
  "example_page =
     \<lparr>page_addr = 8, page_size = 512, page_records = 0, parent = None, parent_off = None,
      dsk = Some 4096, read_gen = 1, disk_gen = 5, write_gen = 7, indx_count = 3,
      u_indx = 100, u2 = None, u3 = U3_NULL\<rparr>"

section \<open>Bit fields of the item cell\<close>

lemma mask_push_bit_disjoint:
  "(x AND mask n) AND push_bit n y = (0 :: 'a::len word)"
  by (rule bit_eqI) (auto simp add: bit_simps)

lemma len_field_type_field_disjoint:
  "(x AND (0x00ffffff :: uint32_t)) AND 0x0f000000 = 0"
  using mask_push_bit_disjoint [of x 24 "15 :: uint32_t"]
  by (simp add: mask_eq_exp_minus_1)

lemma type_field_len_field_disjoint:
  "(x AND (0x0f000000 :: uint32_t)) AND 0x00ffffff = 0"
  using len_field_type_field_disjoint [of x] by (simp add: ac_simps)

lemma len_in_range_masked:
  assumes "len \<le> WT_ITEM_MAX_LEN"
  shows "len AND 0x00ffffff = len"
proof -
  from assms have "len < 2 ^ 24"
    by (simp add: WT_ITEM_MAX_LEN_def word_le_nat_alt word_less_nat_alt)
  then have "len AND mask 24 = len"
    by (rule less_mask_eq)
  then show ?thesis
    by (simp add: mask_eq_exp_minus_1)
qed

lemma len_in_range_no_type_bits:
  assumes "len \<le> WT_ITEM_MAX_LEN"
  shows "len AND 0x0f000000 = 0"
  using len_in_range_masked [OF assms] len_field_type_field_disjoint [of len]
  by simp

lemma item_type_is_type_field:
  assumes "t \<in> set wt_item_types"
  shows "t AND 0x0f000000 = t"
  using assms
  by (auto simp add: wt_item_types_def WT_ITEM_KEY_def WT_ITEM_KEY_OVFL_def
      WT_ITEM_KEY_DUP_def WT_ITEM_KEY_DUP_OVFL_def WT_ITEM_DATA_def WT_ITEM_DATA_OVFL_def
      WT_ITEM_DATA_DUP_def WT_ITEM_DATA_DUP_OVFL_def WT_ITEM_DEL_def WT_ITEM_OFF_def
      WT_ITEM_OFF_RECORD_def)

lemma item_type_no_len_bits:
  assumes "t \<in> set wt_item_types"
  shows "t AND 0x00ffffff = 0"
  using item_type_is_type_field [OF assms] type_field_len_field_disjoint [of t]
  by simp

lemma wt_item_types_distinct: "distinct wt_item_types \<and> length wt_item_types = 11"
  by (simp add: wt_item_types_def WT_ITEM_KEY_def WT_ITEM_KEY_OVFL_def
      WT_ITEM_KEY_DUP_def WT_ITEM_KEY_DUP_OVFL_def WT_ITEM_DATA_def WT_ITEM_DATA_OVFL_def
      WT_ITEM_DATA_DUP_def WT_ITEM_DATA_DUP_OVFL_def WT_ITEM_DEL_def WT_ITEM_OFF_def
      WT_ITEM_OFF_RECORD_def)

section \<open>Item cell round trip\<close>

text \<open>
  C1. For every item type of the eleven-member enumeration and every length in
  \<open>[0, 16 * 1024 * 1024 - 1]\<close>, the type decoded from the cell that \<open>WT_ITEM_SET\<close> stores
  is the original type, and the length decoded from it is the original length.
\<close>

theorem item_codec_roundtrip:
  assumes "t \<in> set wt_item_types" and "len \<le> WT_ITEM_MAX_LEN"
  shows "WT_ITEM_TYPE (WT_ITEM_SET t len) = t \<and> WT_ITEM_LEN (WT_ITEM_SET t len) = len"
proof
  show "WT_ITEM_TYPE (WT_ITEM_SET t len) = t"
    using item_type_is_type_field [OF assms(1)] len_in_range_no_type_bits [OF assms(2)]
    by (simp add: WT_ITEM_TYPE_def WT_ITEM_SET_def bit.conj_disj_distrib2)
  show "WT_ITEM_LEN (WT_ITEM_SET t len) = len"
    using item_type_no_len_bits [OF assms(1)] len_in_range_masked [OF assms(2)]
    by (simp add: WT_ITEM_LEN_def WT_ITEM_SET_def bit.conj_disj_distrib2)
qed

theorem item_codec_roundtrip_witness:
  "WT_ITEM_OFF_RECORD \<in> set wt_item_types \<and> (16777215 :: uint32_t) \<le> WT_ITEM_MAX_LEN
   \<and> WT_ITEM_TYPE (WT_ITEM_SET WT_ITEM_OFF_RECORD 16777215) = WT_ITEM_OFF_RECORD
   \<and> WT_ITEM_LEN (WT_ITEM_SET WT_ITEM_OFF_RECORD 16777215) = 16777215"
proof -
  have t: "WT_ITEM_OFF_RECORD \<in> set wt_item_types"
    by (simp add: wt_item_types_def)
  have l: "(16777215 :: uint32_t) \<le> WT_ITEM_MAX_LEN"
    by (simp add: WT_ITEM_MAX_LEN_def)
  show ?thesis
    using t l item_codec_roundtrip [OF t l] by simp
qed

section \<open>Item cell field updates\<close>

lemma len_field_unused_disjoint:
  "(x AND (0x00ffffff :: uint32_t)) AND 0xf0000000 = 0"
  using mask_push_bit_disjoint [of x 24 "0xf0 :: uint32_t"]
  by (simp add: mask_eq_exp_minus_1)

lemma type_field_unused_disjoint:
  "(x AND (0x0f000000 :: uint32_t)) AND 0xf0000000 = 0"
proof -
  have "(x AND (0x0f000000 :: uint32_t)) AND 0xf0000000 = x AND (0x0f000000 AND 0xf0000000)"
    by (simp only: and.assoc)
  then show ?thesis by simp
qed

lemma len_in_range_no_unused_bits:
  assumes "len \<le> WT_ITEM_MAX_LEN"
  shows "len AND 0xf0000000 = 0"
  using len_in_range_masked [OF assms] len_field_unused_disjoint [of len] by simp

lemma item_type_no_unused_bits:
  assumes "t \<in> set wt_item_types"
  shows "t AND 0xf0000000 = 0"
  using item_type_is_type_field [OF assms] type_field_unused_disjoint [of t] by simp

lemma above_length_field_split: "(0xff000000 :: uint32_t) = 0x0f000000 OR 0xf0000000"
  by simp

lemma outside_type_field_split: "(0xf0ffffff :: uint32_t) = 0x00ffffff OR 0xf0000000"
  by simp

text \<open>
  The three parts of the cell after \<open>WT_ITEM_SET_LEN\<close>: the length field holds the new
  length, the type field is as it was, the four unused bits are zero.
\<close>

lemma item_set_len_bits:
  assumes "len \<le> WT_ITEM_MAX_LEN"
  shows "WT_ITEM_SET_LEN c len AND 0x00ffffff = len"
    and "WT_ITEM_SET_LEN c len AND 0x0f000000 = c AND 0x0f000000"
    and "WT_ITEM_SET_LEN c len AND 0xf0000000 = 0"
proof -
  show "WT_ITEM_SET_LEN c len AND 0x00ffffff = len"
    using len_in_range_masked [OF assms] type_field_len_field_disjoint [of c]
    by (simp add: WT_ITEM_TYPE_def WT_ITEM_SET_LEN_def WT_ITEM_SET_def
        bit.conj_disj_distrib2)
  show "WT_ITEM_SET_LEN c len AND 0x0f000000 = c AND 0x0f000000"
    using len_in_range_no_type_bits [OF assms]
    by (simp add: WT_ITEM_TYPE_def WT_ITEM_SET_LEN_def WT_ITEM_SET_def
        bit.conj_disj_distrib2)
  show "WT_ITEM_SET_LEN c len AND 0xf0000000 = 0"
    using len_in_range_no_unused_bits [OF assms] type_field_unused_disjoint [of c]
    by (simp add: WT_ITEM_TYPE_def WT_ITEM_SET_LEN_def WT_ITEM_SET_def
        bit.conj_disj_distrib2)
qed

text \<open>The same for \<open>WT_ITEM_SET_TYPE\<close>.\<close>

lemma item_set_type_bits:
  assumes "t \<in> set wt_item_types"
  shows "WT_ITEM_SET_TYPE c t AND 0x0f000000 = t"
    and "WT_ITEM_SET_TYPE c t AND 0x00ffffff = c AND 0x00ffffff"
    and "WT_ITEM_SET_TYPE c t AND 0xf0000000 = 0"
proof -
  show "WT_ITEM_SET_TYPE c t AND 0x0f000000 = t"
    using item_type_is_type_field [OF assms] len_field_type_field_disjoint [of c]
    by (simp add: WT_ITEM_LEN_def WT_ITEM_SET_TYPE_def WT_ITEM_SET_def
        bit.conj_disj_distrib2)
  show "WT_ITEM_SET_TYPE c t AND 0x00ffffff = c AND 0x00ffffff"
    using item_type_no_len_bits [OF assms]
    by (simp add: WT_ITEM_LEN_def WT_ITEM_SET_TYPE_def WT_ITEM_SET_def
        bit.conj_disj_distrib2)
  show "WT_ITEM_SET_TYPE c t AND 0xf0000000 = 0"
    using item_type_no_unused_bits [OF assms] len_field_unused_disjoint [of c]
    by (simp add: WT_ITEM_LEN_def WT_ITEM_SET_TYPE_def WT_ITEM_SET_def
        bit.conj_disj_distrib2)
qed

lemma item_set_len_outside_length_field:
  assumes "len \<le> WT_ITEM_MAX_LEN" and "c AND 0xf0000000 = 0"
  shows "WT_ITEM_SET_LEN c len AND 0xff000000 = c AND 0xff000000"
  using item_set_len_bits(2,3) [OF assms(1), of c] assms(2)
  by (simp only: above_length_field_split bit.conj_disj_distrib)

lemma item_set_type_outside_type_field:
  assumes "t \<in> set wt_item_types" and "c AND 0xf0000000 = 0"
  shows "WT_ITEM_SET_TYPE c t AND 0xf0ffffff = c AND 0xf0ffffff"
  using item_set_type_bits(2,3) [OF assms(1), of c] assms(2)
  by (simp only: outside_type_field_split bit.conj_disj_distrib)

lemma item_set_unused_bits_clear:
  assumes "t \<in> set wt_item_types" and "len \<le> WT_ITEM_MAX_LEN"
  shows "WT_ITEM_SET t len AND 0xf0000000 = 0"
  using item_type_no_unused_bits [OF assms(1)] len_in_range_no_unused_bits [OF assms(2)]
  by (simp add: WT_ITEM_SET_def bit.conj_disj_distrib2)

text \<open>
  C8, as the claim states it, fails: the two macros do not change only their own field.
  Both store \<open>(type) | (size)\<close> with the type masked by \<open>0x0f000000\<close> and the length by
  \<open>0x00ffffff\<close>, so the four unused bits 28-31 of the cell are stored as zero. On the
  cell \<open>0xf0000123\<close> (key type, length \<open>0x123\<close>), updating the length to the length it
  has, and updating the type to the type it has, both store \<open>0x00000123\<close>: the cell
  differs from the old one outside the field that was updated.
\<close>

theorem item_field_update_counterexample:
  "WT_ITEM_LEN 0xf0000123 = 0x123
   \<and> WT_ITEM_SET_LEN 0xf0000123 0x123 = 0x00000123
   \<and> WT_ITEM_SET_LEN 0xf0000123 0x123 AND 0xff000000 \<noteq> 0xf0000123 AND 0xff000000
   \<and> WT_ITEM_TYPE 0xf0000123 = WT_ITEM_KEY
   \<and> WT_ITEM_SET_TYPE 0xf0000123 WT_ITEM_KEY = 0x00000123
   \<and> WT_ITEM_SET_TYPE 0xf0000123 WT_ITEM_KEY AND 0xf0ffffff \<noteq> 0xf0000123 AND 0xf0ffffff"
  by (simp add: WT_ITEM_LEN_def WT_ITEM_TYPE_def WT_ITEM_SET_LEN_def WT_ITEM_SET_TYPE_def
      WT_ITEM_SET_def WT_ITEM_KEY_def)

text \<open>
  C8, amended. For every 4-byte item cell: \<open>WT_ITEM_SET_LEN\<close> with a length of at most
  \<open>16 MiB - 1\<close> stores that length in the 24-bit length field, leaves the 4-bit type
  field (the decoded type) as it was and stores the four unused bits 28-31 as zero;
  \<open>WT_ITEM_SET_TYPE\<close> with one of the eleven item types stores that type in the type
  field, leaves the length field (the decoded length) as it was and stores the four
  unused bits as zero. So on a cell whose unused bits are zero each macro changes only
  its own field, and every cell that \<open>WT_ITEM_SET\<close> builds from one of the eleven types
  and a length of at most \<open>16 MiB - 1\<close> is such a cell.
\<close>

theorem item_field_update_frame:
  assumes "len \<le> WT_ITEM_MAX_LEN" and "t \<in> set wt_item_types"
  shows "WT_ITEM_TYPE (WT_ITEM_SET_LEN c len) = WT_ITEM_TYPE c
       \<and> WT_ITEM_LEN (WT_ITEM_SET_LEN c len) = len
       \<and> WT_ITEM_SET_LEN c len AND 0xf0000000 = 0
       \<and> (c AND 0xf0000000 = 0
            \<longrightarrow> WT_ITEM_SET_LEN c len AND 0xff000000 = c AND 0xff000000)
       \<and> WT_ITEM_LEN (WT_ITEM_SET_TYPE c t) = WT_ITEM_LEN c
       \<and> WT_ITEM_TYPE (WT_ITEM_SET_TYPE c t) = t
       \<and> WT_ITEM_SET_TYPE c t AND 0xf0000000 = 0
       \<and> (c AND 0xf0000000 = 0
            \<longrightarrow> WT_ITEM_SET_TYPE c t AND 0xf0ffffff = c AND 0xf0ffffff)
       \<and> WT_ITEM_SET t len AND 0xf0000000 = 0"
proof (intro conjI impI)
  show "WT_ITEM_TYPE (WT_ITEM_SET_LEN c len) = WT_ITEM_TYPE c"
    using item_set_len_bits(2) [OF assms(1), of c] by (simp add: WT_ITEM_TYPE_def)
  show "WT_ITEM_LEN (WT_ITEM_SET_LEN c len) = len"
    using item_set_len_bits(1) [OF assms(1), of c] by (simp add: WT_ITEM_LEN_def)
  show "WT_ITEM_SET_LEN c len AND 0xf0000000 = 0"
    by (rule item_set_len_bits(3) [OF assms(1)])
  show "WT_ITEM_SET_LEN c len AND 0xff000000 = c AND 0xff000000"
    if "c AND 0xf0000000 = 0"
    using assms(1) that by (rule item_set_len_outside_length_field)
  show "WT_ITEM_LEN (WT_ITEM_SET_TYPE c t) = WT_ITEM_LEN c"
    using item_set_type_bits(2) [OF assms(2), of c] by (simp add: WT_ITEM_LEN_def)
  show "WT_ITEM_TYPE (WT_ITEM_SET_TYPE c t) = t"
    using item_set_type_bits(1) [OF assms(2), of c] by (simp add: WT_ITEM_TYPE_def)
  show "WT_ITEM_SET_TYPE c t AND 0xf0000000 = 0"
    by (rule item_set_type_bits(3) [OF assms(2)])
  show "WT_ITEM_SET_TYPE c t AND 0xf0ffffff = c AND 0xf0ffffff"
    if "c AND 0xf0000000 = 0"
    using assms(2) that by (rule item_set_type_outside_type_field)
  show "WT_ITEM_SET t len AND 0xf0000000 = 0"
    using assms(2,1) by (rule item_set_unused_bits_clear)
qed

theorem item_field_update_frame_witness:
  "(5 :: uint32_t) \<le> WT_ITEM_MAX_LEN \<and> WT_ITEM_DEL \<in> set wt_item_types
   \<and> (0x0a000123 :: uint32_t) AND 0xf0000000 = 0
   \<and> WT_ITEM_TYPE (WT_ITEM_SET_LEN 0x0a000123 5) = WT_ITEM_TYPE 0x0a000123
   \<and> WT_ITEM_LEN (WT_ITEM_SET_LEN 0x0a000123 5) = 5
   \<and> WT_ITEM_SET_LEN 0x0a000123 5 AND 0xff000000 = 0x0a000123 AND 0xff000000
   \<and> WT_ITEM_LEN (WT_ITEM_SET_TYPE 0x0a000123 WT_ITEM_DEL) = WT_ITEM_LEN 0x0a000123
   \<and> WT_ITEM_TYPE (WT_ITEM_SET_TYPE 0x0a000123 WT_ITEM_DEL) = WT_ITEM_DEL
   \<and> WT_ITEM_SET_TYPE 0x0a000123 WT_ITEM_DEL AND 0xf0ffffff = 0x0a000123 AND 0xf0ffffff
   \<and> WT_ITEM_SET WT_ITEM_DEL 5 AND 0xf0000000 = 0"
proof -
  have l: "(5 :: uint32_t) \<le> WT_ITEM_MAX_LEN"
    by (simp add: WT_ITEM_MAX_LEN_def)
  have t: "WT_ITEM_DEL \<in> set wt_item_types"
    by (simp add: wt_item_types_def)
  have u: "(0x0a000123 :: uint32_t) AND 0xf0000000 = 0"
    by simp
  show ?thesis
    using l t u item_field_update_frame [OF l t, of "0x0a000123"] by blast
qed

text \<open>
  The bound on the length is needed: a length with a bit above the length field changes
  the decoded type.
\<close>

lemma item_set_len_over_cap_changes_type:
  "WT_ITEM_TYPE (WT_ITEM_SET_LEN WT_ITEM_KEY 0x01000000) = WT_ITEM_KEY_OVFL"
  by (simp add: WT_ITEM_TYPE_def WT_ITEM_SET_LEN_def WT_ITEM_SET_def WT_ITEM_KEY_def
      WT_ITEM_KEY_OVFL_def)

lemma item_set_len_unused_bits:
  "WT_ITEM_SET_LEN 0xf0000000 0 = 0"
  by (simp add: WT_ITEM_TYPE_def WT_ITEM_SET_LEN_def WT_ITEM_SET_def)

section \<open>Item lengths over the cap\<close>

text \<open>
  C6, as the claim states it, fails: \<open>WT_ITEM_SET\<close> has no length check and no error
  result. With the length \<open>16 * 1024 * 1024\<close>, one over the cap, and the key type it
  stores a cell, and that cell is the cell of a key-overflow item of length 0.
\<close>

theorem item_set_over_cap_counterexample:
  "WT_ITEM_MAX_LEN < 0x01000000
   \<and> WT_ITEM_SET WT_ITEM_KEY 0x01000000 = WT_ITEM_SET WT_ITEM_KEY_OVFL 0
   \<and> WT_ITEM_TYPE (WT_ITEM_SET WT_ITEM_KEY 0x01000000) = WT_ITEM_KEY_OVFL
   \<and> WT_ITEM_LEN (WT_ITEM_SET WT_ITEM_KEY 0x01000000) = 0"
  by (simp add: WT_ITEM_MAX_LEN_def WT_ITEM_SET_def WT_ITEM_KEY_def WT_ITEM_KEY_OVFL_def
      WT_ITEM_TYPE_def WT_ITEM_LEN_def)

text \<open>
  C6, amended. \<open>WT_ITEM_SET\<close> does not check the length: for every type tag and every
  length greater than \<open>16 MiB - 1\<close> it stores the cell \<open>type | length\<close> without an error,
  and the length decoded from that cell is not the length given (it is at most the cap).
\<close>

theorem item_set_over_cap_stores_cell:
  assumes "WT_ITEM_MAX_LEN < len"
  shows "WT_ITEM_SET t len = t OR len
       \<and> WT_ITEM_LEN (WT_ITEM_SET t len) \<le> WT_ITEM_MAX_LEN
       \<and> WT_ITEM_LEN (WT_ITEM_SET t len) \<noteq> len"
proof -
  have le: "WT_ITEM_LEN (WT_ITEM_SET t len) \<le> WT_ITEM_MAX_LEN"
    unfolding WT_ITEM_LEN_def WT_ITEM_MAX_LEN_def
    using word_and_le1 [of "WT_ITEM_SET t len" "0x00ffffff"] by simp
  with assms have "WT_ITEM_LEN (WT_ITEM_SET t len) \<noteq> len"
    by auto
  with le show ?thesis
    by (simp add: WT_ITEM_SET_def)
qed

theorem item_set_over_cap_stores_cell_witness:
  "WT_ITEM_MAX_LEN < 0x01000005
   \<and> WT_ITEM_SET WT_ITEM_DATA 0x01000005 = WT_ITEM_DATA OR 0x01000005
   \<and> WT_ITEM_LEN (WT_ITEM_SET WT_ITEM_DATA 0x01000005) \<le> WT_ITEM_MAX_LEN
   \<and> WT_ITEM_LEN (WT_ITEM_SET WT_ITEM_DATA 0x01000005) \<noteq> 0x01000005"
proof -
  have h: "WT_ITEM_MAX_LEN < 0x01000005"
    by (simp add: WT_ITEM_MAX_LEN_def)
  show ?thesis
    using h item_set_over_cap_stores_cell [OF h, of WT_ITEM_DATA] by blast
qed

section \<open>Address and offset\<close>

lemma sdiv_nonneg_eq_div:
  "0 \<le> k \<Longrightarrow> 0 \<le> l \<Longrightarrow> (k :: int) sdiv l = k div l"
  by (simp add: signed_divide_int_def sgn_if)

lemma allocation_size_max_value: "WT_BTREE_ALLOCATION_SIZE_MAX = 134217728"
  by (simp add: WT_BTREE_ALLOCATION_SIZE_MAX_def WT_MEGABYTE_def)

lemma sint_off_t_of_small:
  "0 \<le> r \<Longrightarrow> r < 2 ^ 63 \<Longrightarrow> sint (word_of_int r :: off_t) = r"
  by (simp add: sint_sbintrunc' signed_take_bit_int_eq_self)

text \<open>
  C2. For every address \<open>a\<close> below the invalid address (the maximum 32-bit value) and
  every allocation unit from 512 bytes to 128 MB, \<open>WT_ADDR_TO_OFF\<close> yields the byte offset
  \<open>a * u\<close> (without overflow), and \<open>WT_OFF_TO_ADDR\<close> of that offset yields \<open>a\<close> again.
\<close>

theorem addr_off_roundtrip:
  assumes a: "addr < WT_ADDR_INVALID"
    and lo: "WT_BTREE_ALLOCATION_SIZE \<le> allocsize db"
    and hi: "allocsize db \<le> WT_BTREE_ALLOCATION_SIZE_MAX"
  shows "\<exists>off. WT_ADDR_TO_OFF db addr = Some off
           \<and> sint off = uint addr * uint (allocsize db)
           \<and> WT_OFF_TO_ADDR db off = Some addr"
proof -
  define u where "u = uint (allocsize db)"
  define r where "r = uint addr * u"
  have u_lo: "512 \<le> u"
    using lo by (simp add: u_def WT_BTREE_ALLOCATION_SIZE_def word_le_def)
  have u_hi: "u \<le> 134217728"
    using hi by (simp add: u_def allocation_size_max_value word_le_def)
  have a0: "0 \<le> uint addr" by simp
  have a1: "uint addr < 4294967296"
    using uint_bounded [of addr] by simp
  have r0: "0 \<le> r" using a0 u_lo by (simp add: r_def)
  have "r \<le> 4294967296 * 134217728"
    unfolding r_def using a0 a1 u_lo u_hi by (intro mult_mono) auto
  then have r1: "r < 2 ^ 63" by simp
  then have r2: "r \<le> INT64_MAX" by (simp add: INT64_MAX_def)
  have fwd: "WT_ADDR_TO_OFF db addr = Some (word_of_int r)"
    using r2 by (simp add: WT_ADDR_TO_OFF_def r_def u_def Let_def)
  have s: "sint (word_of_int r :: off_t) = r"
    using r0 r1 by (rule sint_off_t_of_small)
  have nz: "allocsize db \<noteq> 0"
    using lo by (auto simp add: WT_BTREE_ALLOCATION_SIZE_def)
  have q: "r sdiv u = uint addr"
    using u_lo a0 r0 by (simp add: sdiv_nonneg_eq_div) (simp add: r_def)
  have bwd: "WT_OFF_TO_ADDR db (word_of_int r) = Some addr"
    using nz s q by (simp add: WT_OFF_TO_ADDR_def u_def [symmetric])
  show ?thesis using fwd s bwd by (simp add: r_def u_def)
qed

theorem addr_off_roundtrip_witness:
  "(4294967294 :: uint32_t) < WT_ADDR_INVALID
   \<and> WT_BTREE_ALLOCATION_SIZE \<le> allocsize \<lparr>allocsize = 134217728\<rparr>
   \<and> allocsize \<lparr>allocsize = 134217728\<rparr> \<le> WT_BTREE_ALLOCATION_SIZE_MAX
   \<and> (\<exists>off. WT_ADDR_TO_OFF \<lparr>allocsize = 134217728\<rparr> 4294967294 = Some off
         \<and> sint off = uint (4294967294 :: uint32_t) * uint (allocsize \<lparr>allocsize = 134217728\<rparr>)
         \<and> WT_OFF_TO_ADDR \<lparr>allocsize = 134217728\<rparr> off = Some 4294967294)"
proof -
  have a: "(4294967294 :: uint32_t) < WT_ADDR_INVALID"
    by (simp add: WT_ADDR_INVALID_def UINT32_MAX_def)
  have lo: "WT_BTREE_ALLOCATION_SIZE \<le> allocsize \<lparr>allocsize = 134217728\<rparr>"
    by (simp add: WT_BTREE_ALLOCATION_SIZE_def)
  have hi: "allocsize \<lparr>allocsize = 134217728\<rparr> \<le> WT_BTREE_ALLOCATION_SIZE_MAX"
    by (simp add: allocation_size_max_value)
  show ?thesis
    using a lo hi addr_off_roundtrip [OF a lo hi] by blast
qed

text \<open>
  C10. \<open>WT_OFF_TO_ADDR\<close> validates nothing: with any allocation unit other than zero it
  yields an address for every 64-bit offset, and for every byte offset (an offset that is
  not negative) that address is the integer quotient \<open>offset / allocation unit\<close> reduced
  modulo \<open>2^32\<close>. An offset that is not aligned is rounded down, and a quotient beyond
  32 bits wraps.
\<close>

theorem off_to_addr_no_validation:
  assumes nz: "allocsize db \<noteq> 0"
  shows "\<exists>a. WT_OFF_TO_ADDR db off = Some a
           \<and> (0 \<le> sint off \<longrightarrow> uint a = (sint off div uint (allocsize db)) mod 2 ^ 32)"
proof -
  have "0 \<le> sint off \<Longrightarrow> sint off sdiv uint (allocsize db) = sint off div uint (allocsize db)"
    by (simp add: sdiv_nonneg_eq_div)
  then show ?thesis
    using nz by (simp add: WT_OFF_TO_ADDR_def uint_word_of_int)
qed

theorem off_to_addr_no_validation_witness:
  "allocsize \<lparr>allocsize = 512\<rparr> \<noteq> 0
   \<and> 0 \<le> sint (2199023259141 :: off_t)
   \<and> (2199023259141 :: int) div 512 = 4294967296 + 7
   \<and> (\<exists>a. WT_OFF_TO_ADDR \<lparr>allocsize = 512\<rparr> 2199023259141 = Some a \<and> uint a = 7)"
proof -
  have nz: "allocsize \<lparr>allocsize = 512\<rparr> \<noteq> 0"
    by simp
  have nn: "0 \<le> sint (2199023259141 :: off_t)"
    by simp
  show ?thesis
    using nz nn off_to_addr_no_validation [OF nz, of 2199023259141] by simp
qed

section \<open>Write generation and the applier's check\<close>

text \<open>
  C3. When the applier processes a scheduled modification and the write generation
  recorded at search time is not the page's current write generation, the operation fails
  with the restart-required condition and the page, its write generation included, is
  unchanged; when the two are equal the operation succeeds, the change is applied and the
  page's write generation is the old one plus one (the increment of the 32-bit counter).
\<close>

theorem generation_check:
  "(search_gen \<noteq> write_gen p \<longrightarrow>
      fst (apply_modification search_gen change p) = RESTART_REQUIRED
      \<and> snd (apply_modification search_gen change p) = p
      \<and> write_gen (snd (apply_modification search_gen change p)) = write_gen p)
   \<and> (search_gen = write_gen p \<longrightarrow>
      fst (apply_modification search_gen change p) = APPLIED
      \<and> u2 (snd (apply_modification search_gen change p)) = change (u2 p)
      \<and> write_gen (snd (apply_modification search_gen change p)) = write_gen p + 1)"
  by (simp add: apply_modification_def WT_PAGE_SET_MODIFIED_def)

theorem generation_check_witness:
  "(6 :: uint32_t) \<noteq> write_gen example_page
   \<and> fst (apply_modification 6 (\<lambda>_. Some [None, Some 4242, None]) example_page)
       = RESTART_REQUIRED
   \<and> write_gen (snd (apply_modification 6 (\<lambda>_. Some [None, Some 4242, None]) example_page))
       = 7
   \<and> (7 :: uint32_t) = write_gen example_page
   \<and> fst (apply_modification 7 (\<lambda>_. Some [None, Some 4242, None]) example_page) = APPLIED
   \<and> write_gen (snd (apply_modification 7 (\<lambda>_. Some [None, Some 4242, None]) example_page))
       = 8"
proof -
  have g: "write_gen example_page = 7"
    by (simp add: example_page_def)
  show ?thesis
    using generation_check [of 6 example_page "\<lambda>_. Some [None, Some 4242, None]"]
      generation_check [of 7 example_page "\<lambda>_. Some [None, Some 4242, None]"]
    by (simp add: g)
qed

section \<open>Dirty pages\<close>

text \<open>
  C4. A page is dirty (\<open>WT_PAGE_IS_MODIFIED\<close>) exactly when its disk generation differs
  from its write generation. Right after the write-back \<open>WT_PAGE_DISK_WRITE\<close> the two
  generations are equal and the page is clean; the bump \<open>WT_PAGE_SET_MODIFIED\<close> of a
  successful modification makes that page, and any clean page, dirty again.
\<close>

theorem dirty_tracking:
  "WT_PAGE_IS_MODIFIED p = (disk_gen p \<noteq> write_gen p)
   \<and> disk_gen (WT_PAGE_DISK_WRITE p) = write_gen p
   \<and> write_gen (WT_PAGE_DISK_WRITE p) = write_gen p
   \<and> \<not> WT_PAGE_IS_MODIFIED (WT_PAGE_DISK_WRITE p)
   \<and> WT_PAGE_IS_MODIFIED (WT_PAGE_SET_MODIFIED (WT_PAGE_DISK_WRITE p))
   \<and> (\<not> WT_PAGE_IS_MODIFIED q \<longrightarrow> WT_PAGE_IS_MODIFIED (WT_PAGE_SET_MODIFIED q))"
  by (simp add: WT_PAGE_IS_MODIFIED_def WT_PAGE_DISK_WRITE_def WT_PAGE_SET_MODIFIED_def)

theorem dirty_tracking_witness:
  "WT_PAGE_IS_MODIFIED example_page
   \<and> \<not> WT_PAGE_IS_MODIFIED (WT_PAGE_DISK_WRITE example_page)
   \<and> WT_PAGE_IS_MODIFIED (WT_PAGE_SET_MODIFIED (WT_PAGE_DISK_WRITE example_page))"
proof -
  have d: "disk_gen example_page \<noteq> write_gen example_page"
    by (simp add: example_page_def)
  show ?thesis
    using d dirty_tracking [of example_page "WT_PAGE_DISK_WRITE example_page"]
    by simp
qed

text \<open>
  The same over a run of modifications: as long as fewer than \<open>2^32\<close> bumps follow the
  write-back, the 32-bit write generation has not come back to the disk generation.
\<close>

lemma write_gen_funpow:
  "write_gen ((WT_PAGE_SET_MODIFIED ^^ n) p) = write_gen p + of_nat n"
  by (induction n) (simp_all add: WT_PAGE_SET_MODIFIED_def)

lemma disk_gen_funpow:
  "disk_gen ((WT_PAGE_SET_MODIFIED ^^ n) p) = disk_gen p"
  by (induction n) (simp_all add: WT_PAGE_SET_MODIFIED_def)

lemma dirty_after_modifications:
  assumes "0 < n" and "n < 2 ^ 32"
  shows "WT_PAGE_IS_MODIFIED ((WT_PAGE_SET_MODIFIED ^^ n) (WT_PAGE_DISK_WRITE p))"
proof -
  have "(of_nat n :: uint32_t) \<noteq> 0"
  proof
    assume "(of_nat n :: uint32_t) = 0"
    then have "unat (of_nat n :: uint32_t) = 0" by simp
    then have "n mod 2 ^ 32 = 0" by (simp add: unat_of_nat)
    with assms show False by simp
  qed
  then show ?thesis
    by (simp add: WT_PAGE_IS_MODIFIED_def write_gen_funpow disk_gen_funpow
        WT_PAGE_DISK_WRITE_def)
qed

section \<open>Lookups in the arrays parallel to the index\<close>

text \<open>
  C9. For every in-memory page and every pointer into its index (a valid slot or not):
  when the array \<open>u2\<close> was never allocated, the lookups of the slot's modification list
  (\<open>WT_COL_REPL\<close>, \<open>WT_ROW_REPL\<close>) and of its RLE expansion list (\<open>WT_COL_RLEEXP\<close>) return
  \<open>NULL\<close> without reading any array, and when \<open>u3\<close> was never allocated the lookup of the
  off-page duplicate tree (\<open>WT_ROW_DUP\<close>) does. None of them faults.
\<close>

theorem overlay_lookup_unallocated:
  "(u2 pg = None \<longrightarrow>
      WT_COL_REPL pg ip = Inr None \<and> WT_COL_RLEEXP pg ip = Inr None
      \<and> WT_ROW_REPL pg ip = Inr None)
   \<and> (u3 pg = U3_NULL \<longrightarrow> WT_ROW_DUP pg ip = Inr None)"
  by (simp add: WT_COL_REPL_def WT_COL_RLEEXP_def WT_ROW_REPL_def WT_ROW_DUP_def
      WT_COL_ARRAY_def WT_ROW_ARRAY_def u2_repl_def u2_rleexp_def u3_dup_def)

theorem overlay_lookup_unallocated_witness:
  "u2 example_page = None \<and> u3 example_page = U3_NULL
   \<and> WT_COL_REPL example_page 101 = Inr None
   \<and> WT_COL_RLEEXP example_page 101 = Inr None
   \<and> WT_ROW_REPL example_page 101 = Inr None
   \<and> WT_ROW_DUP example_page 101 = Inr None"
proof -
  have a: "u2 example_page = None" and b: "u3 example_page = U3_NULL"
    by (simp_all add: example_page_def)
  show ?thesis
    using a b overlay_lookup_unallocated [of example_page 101] by simp
qed

section \<open>The file descriptor: layout and round trip\<close>

lemma wt_page_desc_offsets:
  "take 15 (member_offsets 0 wt_page_desc_members) =
       [(''magic'', 0),
        (''majorv'', 4),
        (''minorv'', 6),
        (''intlmax'', 8),
        (''intlmin'', 12),
        (''leafmax'', 16),
        (''leafmin'', 20),
        (''recno_offset'', 24),
        (''root_addr'', 32),
        (''root_size'', 36),
        (''records'', 40),
        (''free_addr'', 48),
        (''free_size'', 52),
        (''flags'', 56),
        (''fixed_len'', 60)]"
  by code_simp

lemma wt_page_desc_sizeof: "struct_sizeof wt_page_desc_members = WT_PAGE_DESC_SIZE"
  by code_simp

lemma length_le_bytes: "length (le_bytes n w) = n"
  by (induction n arbitrary: w) simp_all

lemma length_word_bytes [simp]: "length (word_bytes bo n w) = n"
  by (cases bo) (simp_all add: word_bytes_def length_le_bytes)

lemma from_le_le_bytes: "from_le (le_bytes n w) = take_bit (8 * n) w"
proof (induction n arbitrary: w)
  case 0
  then show ?case by simp
next
  case (Suc n)
  have "(ucast (ucast w :: uint8_t) :: 'a word) OR push_bit 8 (take_bit (8 * n) (drop_bit 8 w))
        = take_bit (8 * Suc n) w"
    by (rule bit_eqI) (auto simp add: bit_simps)
  then show ?case by (simp add: Suc)
qed

lemma bytes_word_word_bytes:
  "LENGTH('a) \<le> 8 * n \<Longrightarrow> bytes_word bo (word_bytes bo n (w :: 'a::len word)) = w"
  by (cases bo)
    (simp_all add: bytes_word_def word_bytes_def from_le_le_bytes take_bit_word_eq_self)

lemma length_desc_encode: "length (desc_encode bo d) = WT_PAGE_DESC_SIZE"
  by (simp add: desc_encode_def WT_PAGE_DESC_SIZE_def)

lemma slice_here: "length xs = n \<Longrightarrow> slice 0 n (xs @ ys) = xs"
  by (simp add: slice_def)

lemma slice_skip:
  "length xs = k \<Longrightarrow> k \<le> off \<Longrightarrow> slice off n (xs @ ys) = slice (off - k) n ys"
  by (simp add: slice_def)

lemma desc_encode_slices:
  "slice 0 4 (desc_encode bo d) = word_bytes bo 4 (magic d)"
  "slice 4 2 (desc_encode bo d) = word_bytes bo 2 (majorv d)"
  "slice 6 2 (desc_encode bo d) = word_bytes bo 2 (minorv d)"
  "slice 8 4 (desc_encode bo d) = word_bytes bo 4 (intlmax d)"
  "slice 12 4 (desc_encode bo d) = word_bytes bo 4 (intlmin d)"
  "slice 16 4 (desc_encode bo d) = word_bytes bo 4 (leafmax d)"
  "slice 20 4 (desc_encode bo d) = word_bytes bo 4 (leafmin d)"
  "slice 24 8 (desc_encode bo d) = word_bytes bo 8 (recno_offset d)"
  "slice 32 4 (desc_encode bo d) = word_bytes bo 4 (root_addr d)"
  "slice 36 4 (desc_encode bo d) = word_bytes bo 4 (root_size d)"
  "slice 40 8 (desc_encode bo d) = word_bytes bo 8 (records d)"
  "slice 48 4 (desc_encode bo d) = word_bytes bo 4 (free_addr d)"
  "slice 52 4 (desc_encode bo d) = word_bytes bo 4 (free_size d)"
  "slice 56 4 (desc_encode bo d) = word_bytes bo 4 (flags d)"
  "slice 60 1 (desc_encode bo d) = word_bytes bo 1 (fixed_len d)"
  by (simp_all add: desc_encode_def slice_here slice_skip)

lemma desc_encode_slice_fixed_len:
  "slice 60 (Suc 0) (desc_encode bo d) = word_bytes bo 1 (fixed_len d)"
  using desc_encode_slices(15) [of bo d] by simp

lemma desc_decode_encode:
  assumes "magic d = WT_BTREE_MAGIC" and "majorv d = WT_BTREE_MAJOR_VERSION"
  shows "desc_decode bo (desc_encode bo d) = Inr d"
  using assms
  by (simp add: desc_decode_def Let_def length_desc_encode
      desc_encode_slices desc_encode_slice_fixed_len bytes_word_word_bytes)

lemma desc_decode_rejects:
  assumes "magic d \<noteq> WT_BTREE_MAGIC \<or> majorv d \<noteq> WT_BTREE_MAJOR_VERSION"
  shows "desc_decode bo (desc_encode bo d) = Inl Format_Error"
  using assms
  by (auto simp add: desc_decode_def Let_def length_desc_encode
      desc_encode_slices bytes_word_word_bytes)

lemma example_desc_first_bytes:
  "take 8 (desc_encode Little_Endian example_desc) = [0x41, 0xD8, 0x01, 0, 0, 0, 1, 0]"
  "take 8 (desc_encode Big_Endian example_desc) = [0, 0x01, 0xD8, 0x41, 0, 0, 0, 1]"
  by code_simp+

text \<open>
  C7. The encoded File Descriptor is exactly 512 bytes, which is the size the compiler
  gives \<open>struct __wt_page_desc\<close>; the members of the structure lie at the byte offsets
  magic 0, major version 4, minor version 6, intl-max 8, intl-min 12, leaf-max 16,
  leaf-min 20, recno-offset 24, root-addr 32, root-size 36, records 40, free-addr 48,
  free-size 52, flags 56 and fixed-len 60, and the encoded bytes hold each field there;
  and for every descriptor that carries the engine's magic number and major version,
  decoding the encoded descriptor returns it.
\<close>

theorem page_desc_layout_roundtrip:
  "length (desc_encode bo d) = WT_PAGE_DESC_SIZE
   \<and> WT_PAGE_DESC_SIZE = 512
   \<and> struct_sizeof wt_page_desc_members = WT_PAGE_DESC_SIZE
   \<and> take 15 (member_offsets 0 wt_page_desc_members) =
       [(''magic'', 0),
        (''majorv'', 4),
        (''minorv'', 6),
        (''intlmax'', 8),
        (''intlmin'', 12),
        (''leafmax'', 16),
        (''leafmin'', 20),
        (''recno_offset'', 24),
        (''root_addr'', 32),
        (''root_size'', 36),
        (''records'', 40),
        (''free_addr'', 48),
        (''free_size'', 52),
        (''flags'', 56),
        (''fixed_len'', 60)]
   \<and> slice 0 4 (desc_encode bo d) = word_bytes bo 4 (magic d)
   \<and> slice 4 2 (desc_encode bo d) = word_bytes bo 2 (majorv d)
   \<and> slice 6 2 (desc_encode bo d) = word_bytes bo 2 (minorv d)
   \<and> slice 8 4 (desc_encode bo d) = word_bytes bo 4 (intlmax d)
   \<and> slice 12 4 (desc_encode bo d) = word_bytes bo 4 (intlmin d)
   \<and> slice 16 4 (desc_encode bo d) = word_bytes bo 4 (leafmax d)
   \<and> slice 20 4 (desc_encode bo d) = word_bytes bo 4 (leafmin d)
   \<and> slice 24 8 (desc_encode bo d) = word_bytes bo 8 (recno_offset d)
   \<and> slice 32 4 (desc_encode bo d) = word_bytes bo 4 (root_addr d)
   \<and> slice 36 4 (desc_encode bo d) = word_bytes bo 4 (root_size d)
   \<and> slice 40 8 (desc_encode bo d) = word_bytes bo 8 (records d)
   \<and> slice 48 4 (desc_encode bo d) = word_bytes bo 4 (free_addr d)
   \<and> slice 52 4 (desc_encode bo d) = word_bytes bo 4 (free_size d)
   \<and> slice 56 4 (desc_encode bo d) = word_bytes bo 4 (flags d)
   \<and> slice 60 1 (desc_encode bo d) = word_bytes bo 1 (fixed_len d)
   \<and> (magic d = WT_BTREE_MAGIC \<and> majorv d = WT_BTREE_MAJOR_VERSION
        \<longrightarrow> desc_decode bo (desc_encode bo d) = Inr d)"
  by (intro conjI impI)
    (rule length_desc_encode, rule WT_PAGE_DESC_SIZE_def, rule wt_page_desc_sizeof,
     rule wt_page_desc_offsets, (rule desc_encode_slices)+,
     erule conjE, erule (1) desc_decode_encode)

theorem page_desc_layout_roundtrip_witness:
  "magic example_desc = WT_BTREE_MAGIC \<and> majorv example_desc = WT_BTREE_MAJOR_VERSION
   \<and> length (desc_encode Little_Endian example_desc) = 512
   \<and> desc_decode Little_Endian (desc_encode Little_Endian example_desc) = Inr example_desc"
proof -
  have m: "magic example_desc = WT_BTREE_MAGIC"
    by (simp add: example_desc_def WT_BTREE_MAGIC_def)
  have v: "majorv example_desc = WT_BTREE_MAJOR_VERSION"
    by (simp add: example_desc_def WT_BTREE_MAJOR_VERSION_def)
  show ?thesis
    using m v page_desc_layout_roundtrip [of Little_Endian example_desc]
    by simp
qed

section \<open>Hazard references and eviction\<close>

lemmas ref_consts = WT_REF_CACHE_def WT_REF_DISK_def WT_REF_EVICT_def

lemma init_scan_inv: "scan_inv (init n)"
  by (simp add: scan_inv_def init_def)

lemma step_scan_inv:
  assumes "scan_inv s" and "step e s = Some s'"
  shows "scan_inv s'"
proof (cases e)
  case (Reader_Read_State r)
  with assms show ?thesis
    by (auto simp add: scan_inv_def split: if_splits evictor_pc.splits)
next
  case (Reader_Set_Hazard r)
  with assms show ?thesis
    by (auto simp add: scan_inv_def split: if_splits evictor_pc.splits)
next
  case (Reader_Recheck r)
  with assms show ?thesis
    by (auto simp add: scan_inv_def ref_consts split: if_splits evictor_pc.splits)
next
  case (Reader_Release r)
  with assms show ?thesis
    by (auto simp add: scan_inv_def split: if_splits evictor_pc.splits)
next
  case (Loader_Install p)
  with assms show ?thesis
    by (auto simp add: scan_inv_def ref_consts split: if_splits evictor_pc.splits)
next
  case Loader_Publish
  with assms show ?thesis
    by (auto simp add: scan_inv_def ref_consts split: if_splits evictor_pc.splits)
next
  case Evictor_Mark
  with assms show ?thesis
    by (auto simp add: scan_inv_def ref_consts split: if_splits evictor_pc.splits)
next
  case Evictor_Scan
  with assms show ?thesis
    by (auto simp add: scan_inv_def less_Suc_eq split: if_splits evictor_pc.splits)
next
  case Evictor_Reclaim
  with assms show ?thesis
    by (auto simp add: scan_inv_def split: if_splits evictor_pc.splits)
qed

lemma run_scan_inv:
  "scan_inv s \<Longrightarrow> run evs s = Some s' \<Longrightarrow> scan_inv s'"
proof (induction evs arbitrary: s)
  case Nil
  then show ?case by simp
next
  case (Cons e evs)
  then show ?case
    by (auto split: option.splits dest: step_scan_inv)
qed


lemma live_blocks_reclaim:
  assumes "scan_inv s" and "holds_live s r p" and "ref_page (ref s) = Some p"
  shows "step Evictor_Reclaim s = None"
  using assms
  by (auto simp add: scan_inv_def holds_live_def split: evictor_pc.splits)

lemma live_not_passed:
  assumes "scan_inv s" and "holds_live s r p" and "ref_page (ref s) = Some p"
    and "epc s = E_Scanning i"
  shows "i \<le> r"
proof (rule ccontr)
  assume "\<not> i \<le> r"
  then have "r < i" by simp
  with assms show False
    by (auto simp add: scan_inv_def holds_live_def)
qed

lemma live_scan_aborts:
  assumes "holds_live s r p" and "ref_page (ref s) = Some p" and "epc s = E_Scanning r"
  shows "step Evictor_Scan s
           = Some (s\<lparr>ref := (ref s)\<lparr>ref_state := WT_REF_CACHE\<rparr>, epc := E_Idle\<rparr>)"
  using assms by (simp add: holds_live_def)

lemma live_preserved:
  assumes "scan_inv s" and "holds_live s r p" and "ref_page (ref s) = Some p"
    and "step e s = Some s'" and "e \<noteq> Reader_Release r"
  shows "holds_live s' r p \<and> ref_page (ref s') = Some p"
proof (cases e)
  case Evictor_Reclaim
  with assms live_blocks_reclaim [OF assms(1,2,3)] show ?thesis by simp
next
  case Evictor_Scan
  with assms show ?thesis
    by (auto simp add: holds_live_def split: if_splits evictor_pc.splits)
qed (use assms in \<open>auto simp add: holds_live_def split: if_splits\<close>)

lemma live_run:
  assumes "scan_inv s" and "holds_live s r p" and "ref_page (ref s) = Some p"
    and "run evs s = Some s'" and "Reader_Release r \<notin> set evs"
  shows "holds_live s' r p \<and> ref_page (ref s') = Some p"
  using assms
proof (induction evs arbitrary: s)
  case Nil
  then show ?case by simp
next
  case (Cons e evs)
  from Cons.prems(4) obtain t where t: "step e s = Some t" and rest: "run evs t = Some s'"
    by (auto split: option.splits)
  from Cons.prems(5) have ne: "e \<noteq> Reader_Release r" and notin: "Reader_Release r \<notin> set evs"
    by auto
  have i: "scan_inv t"
    using Cons.prems(1) t by (rule step_scan_inv)
  have "holds_live t r p \<and> ref_page (ref t) = Some p"
    using Cons.prems(1,2,3) t ne by (rule live_preserved)
  then have l: "holds_live t r p" and pg: "ref_page (ref t) = Some p"
    by simp_all
  show ?case
    using i l pg rest notin by (rule Cons.IH)
qed

lemma step_targeted:
  assumes "step e s = Some s'" and "e \<noteq> Evictor_Mark"
  shows "targeted s' = targeted s"
  using assms by (cases e) (auto split: if_splits evictor_pc.splits)

lemma run_targeted:
  assumes "run evs s = Some s'" and "Evictor_Mark \<notin> set evs"
  shows "targeted s' = targeted s"
  using assms
proof (induction evs arbitrary: s)
  case Nil
  then show ?case by simp
next
  case (Cons e evs)
  then show ?case
    by (auto split: option.splits dest: step_targeted)
qed

lemma mark_targeted:
  assumes "step Evictor_Mark s = Some s'"
  shows "targeted s' = Some (ref s) \<and> ref_state (ref s) = WT_REF_CACHE"
  using assms by (auto split: if_splits)

lemma abort_restores:
  assumes "scan_inv s" and "step Evictor_Scan s = Some s'" and "epc s' = E_Idle"
  shows "targeted s = Some (ref s')"
  using assms
  by (auto simp add: scan_inv_def split: if_splits evictor_pc.splits)

text \<open>
  C5. In every state that the readers, the loader and the evictor can reach in any
  interleaving: when a reader holds a live hazard reference against the page that the
  reference holds, the evictor's reclaim step cannot be taken, a scan in progress has not
  passed that reader's slot and aborts when it reads it, and the reader's reference stays
  live, with the page in place, over every continuation in which that reader does not
  release it; and when the evictor chooses the reference and its scan ends in an abort
  (a hazard slot holds the page), the reference after the abort is in-cache and equal to
  the reference before it was chosen.
\<close>

theorem hazard_eviction_safety:
  assumes "run evs (init n) = Some s"
  shows "(holds_live s r p \<and> ref_page (ref s) = Some p \<longrightarrow>
            step Evictor_Reclaim s = None
            \<and> (\<forall>i. epc s = E_Scanning i \<longrightarrow> i \<le> r)
            \<and> (epc s = E_Scanning r \<longrightarrow>
                  step Evictor_Scan s
                    = Some (s\<lparr>ref := (ref s)\<lparr>ref_state := WT_REF_CACHE\<rparr>, epc := E_Idle\<rparr>))
            \<and> (\<forall>evs' s'. run evs' s = Some s' \<and> Reader_Release r \<notin> set evs'
                  \<longrightarrow> holds_live s' r p \<and> ref_page (ref s') = Some p))
       \<and> (\<forall>s1 evs1 s2 s3.
            step Evictor_Mark s = Some s1 \<and> run evs1 s1 = Some s2
            \<and> Evictor_Mark \<notin> set evs1
            \<and> step Evictor_Scan s2 = Some s3 \<and> epc s3 = E_Idle
            \<longrightarrow> ref s3 = ref s \<and> ref_state (ref s3) = WT_REF_CACHE)"
proof -
  have inv: "scan_inv s"
    using init_scan_inv assms by (rule run_scan_inv)
  have part1: "step Evictor_Reclaim s = None
            \<and> (\<forall>i. epc s = E_Scanning i \<longrightarrow> i \<le> r)
            \<and> (epc s = E_Scanning r \<longrightarrow>
                  step Evictor_Scan s
                    = Some (s\<lparr>ref := (ref s)\<lparr>ref_state := WT_REF_CACHE\<rparr>, epc := E_Idle\<rparr>))
            \<and> (\<forall>evs' s'. run evs' s = Some s' \<and> Reader_Release r \<notin> set evs'
                  \<longrightarrow> holds_live s' r p \<and> ref_page (ref s') = Some p)"
    if l: "holds_live s r p" and pg: "ref_page (ref s) = Some p"
  proof (intro conjI allI impI)
    show "step Evictor_Reclaim s = None"
      using inv l pg by (rule live_blocks_reclaim)
    show "i \<le> r" if "epc s = E_Scanning i" for i
      using inv l pg that by (rule live_not_passed)
    show "step Evictor_Scan s
            = Some (s\<lparr>ref := (ref s)\<lparr>ref_state := WT_REF_CACHE\<rparr>, epc := E_Idle\<rparr>)"
      if "epc s = E_Scanning r"
      using l pg that by (rule live_scan_aborts)
    show "holds_live s' r p" and "ref_page (ref s') = Some p"
      if "run evs' s = Some s' \<and> Reader_Release r \<notin> set evs'" for evs' s'
      using live_run [OF inv l pg, of evs' s'] that by simp_all
  qed
  have part2: "ref s3 = ref s \<and> ref_state (ref s3) = WT_REF_CACHE"
    if m: "step Evictor_Mark s = Some s1" and r: "run evs1 s1 = Some s2"
      and nm: "Evictor_Mark \<notin> set evs1"
      and sc: "step Evictor_Scan s2 = Some s3" and ab: "epc s3 = E_Idle"
    for s1 evs1 s2 s3
  proof -
    have "scan_inv s1" using inv m by (rule step_scan_inv)
    then have "scan_inv s2" using r by (rule run_scan_inv)
    then have "targeted s2 = Some (ref s3)" using sc ab by (rule abort_restores)
    moreover have "targeted s2 = targeted s1" using r nm by (rule run_targeted)
    moreover have "targeted s1 = Some (ref s)" and c: "ref_state (ref s) = WT_REF_CACHE"
      using mark_targeted [OF m] by simp_all
    ultimately have "ref s3 = ref s" by simp
    with c show ?thesis by simp
  qed
  from part1 part2 show ?thesis by blast
qed

lemma held_run: "run held_trace (init 2) = Some held_state"
proof -
  have "run held_trace (init 2) \<noteq> None"
    by (simp add: held_trace_def init_def ref_consts)
  then show ?thesis by (simp add: held_state_def)
qed


lemma held_state_eval:
  "ref held_state = \<lparr>ref_page = Some 4096, ref_state = WT_REF_CACHE\<rparr>"
  "readers held_state = 2" "epc held_state = E_Idle"
  "rpc held_state 0 = R_Holding" "rpc held_state (Suc 0) = R_Idle"
  "hazard held_state 0 = Some 4096"
  by (simp_all add: held_state_def held_trace_def init_def ref_consts)

lemma marked_step: "step Evictor_Mark held_state = Some marked_state"
  by (simp add: marked_state_def held_state_eval)

lemma scanning_run: "run [Reader_Read_State 1] marked_state = Some scanning_state"
  by (simp add: scanning_state_def marked_state_def held_state_eval ref_consts)

lemma aborted_step:
  "step Evictor_Scan scanning_state = Some aborted_state \<and> epc aborted_state = E_Idle"
  by (simp add: aborted_state_def scanning_state_def marked_state_def held_state_eval ref_consts)

theorem hazard_eviction_safety_witness:
  "run held_trace (init 2) = Some held_state
   \<and> holds_live held_state 0 4096 \<and> ref_page (ref held_state) = Some 4096
   \<and> step Evictor_Reclaim held_state = None
   \<and> run [Evictor_Mark, Reader_Read_State 1] held_state = Some scanning_state
   \<and> Reader_Release 0 \<notin> set [Evictor_Mark, Reader_Read_State 1]
   \<and> holds_live scanning_state 0 4096
   \<and> step Evictor_Mark held_state = Some marked_state
   \<and> run [Reader_Read_State 1] marked_state = Some scanning_state
   \<and> Evictor_Mark \<notin> set [Reader_Read_State 1]
   \<and> step Evictor_Scan scanning_state = Some aborted_state
   \<and> epc aborted_state = E_Idle
   \<and> ref aborted_state = ref held_state
   \<and> ref aborted_state = \<lparr>ref_page = Some 4096, ref_state = WT_REF_CACHE\<rparr>"
proof -
  note T = hazard_eviction_safety [OF held_run, of 0 4096]
  have live: "holds_live held_state 0 4096"
    by (simp add: holds_live_def held_state_eval)
  have r2: "run [Evictor_Mark, Reader_Read_State 1] held_state = Some scanning_state"
    using marked_step scanning_run by simp
  have nr: "Reader_Release 0 \<notin> set [Evictor_Mark, Reader_Read_State 1]"
    by simp
  have nm: "Evictor_Mark \<notin> set [Reader_Read_State 1]"
    by simp
  have pg: "ref_page (ref held_state) = Some 4096"
    by (simp add: held_state_eval)
  from T live pg have a: "step Evictor_Reclaim held_state = None"
    by blast
  from T live pg r2 nr have b: "holds_live scanning_state 0 4096"
    by blast
  from T marked_step scanning_run nm aborted_step
  have c: "ref aborted_state = ref held_state"
    by blast
  show ?thesis
    using held_run live pg a r2 nr b marked_step scanning_run nm aborted_step c
    by (simp add: held_state_eval)
qed

text \<open>
  Once reader 0 releases its hazard reference, the next eviction attempt scans both
  slots, finds nothing and reclaims the page: the reference is on-disk again.
\<close>

lemma scenario_release_then_evict:
  "map_option ref (run [Reader_Release 0, Evictor_Mark, Evictor_Scan, Evictor_Scan, Evictor_Reclaim] aborted_state)
     = Some \<lparr>ref_page = None, ref_state = WT_REF_DISK\<rparr>"
  by (simp add: aborted_state_def scanning_state_def marked_state_def held_state_def held_trace_def init_def ref_consts)

text \<open>
  A hazard slot that was set but not yet confirmed does not protect the page: the evictor
  may have read the slot before it was set. The reader then finds the state changed,
  clears the slot and starts over.
\<close>

lemma unconfirmed_hazard_loses:
  "map_option (\<lambda>s. (ref s, rpc s 0, hazard s 0))
     (run [Loader_Install 4096, Loader_Publish, Reader_Read_State 0, Evictor_Mark,
           Evictor_Scan, Reader_Set_Hazard 0, Evictor_Reclaim, Reader_Recheck 0] (init 1))
     = Some (\<lparr>ref_page = None, ref_state = WT_REF_DISK\<rparr>, R_Idle, None)"
  by (simp add: init_def ref_consts)

text \<open>
  The theorem is about the page that the reference holds. If the page is reclaimed and
  another page is loaded between a reader's setting its slot and its second look at the
  state, the reader confirms the in-cache state with the old page in its slot; that slot
  says nothing about the page now in the reference.
\<close>

lemma confirmed_slot_of_reloaded_reference:
  "map_option (\<lambda>s. (ref s, rpc s 0, hazard s 0))
     (run [Loader_Install 4096, Loader_Publish, Reader_Read_State 0, Evictor_Mark,
           Evictor_Scan, Reader_Set_Hazard 0, Evictor_Reclaim,
           Loader_Install 8192, Loader_Publish, Reader_Recheck 0] (init 1))
     = Some (\<lparr>ref_page = Some 8192, ref_state = WT_REF_CACHE\<rparr>, R_Holding, Some 4096)"
  by (simp add: init_def ref_consts)

end
